theory Spec2Isabelle
  imports Complex_Main "HOL-Library.Product_Lexorder"
begin

section \<open>The fitness module of smiley (fitness.py)\<close>

text \<open>
  The module is Python 2 code (\<^verbatim>\<open>xrange\<close>, integer \<^verbatim>\<open>/\<close> on ints). Python floats
  are modelled as exact real numbers: every comparison, sum, quotient and rounding below
  is the mathematical one, so statements about the results are statements about the
  arithmetic the code asks for, not about binary rounding error. The one exception is
  \<^verbatim>\<open>_make_prob_list\<close>, whose arithmetic takes the rounding as a parameter. Python ints are
  \<^typ>\<open>int\<close>; positions and member numbers produced by \<^verbatim>\<open>xrange\<close> are \<^typ>\<open>nat\<close>.
  A fitness record \<^verbatim>\<open>[score, member_no]\<close> is a pair, and Python's lexicographic
  order on such lists is the lexicographic order on pairs.
\<close>

subsection \<open>Python values and errors\<close>

datatype error = ValueError | TypeError | ZeroDivisionError | IndexError | UnboundLocalError

text \<open>Dynamically typed arguments, as far as the \<^verbatim>\<open>isinstance\<close> guards tell them apart.\<close>

datatype pyval = PyNone | PyInt int | PyFloat real | PyStr string

text \<open>A value that a function returns either as a bare number or as a whole record.\<close>

datatype fitval = Score real | Record "real \<times> nat" | NoValue

text \<open>The module constants \<^verbatim>\<open>MAX\<close>, \<^verbatim>\<open>MIN\<close> and \<^verbatim>\<open>CENTER\<close>.\<close>

definition MAX_t :: string where "MAX_t = ''max''"
definition MIN_t :: string where "MIN_t = ''min''"
definition CENTER_t :: string where "CENTER_t = ''center''"
definition FITNESS_TYPES :: "string list" where "FITNESS_TYPES = [MAX_t, MIN_t, CENTER_t]"

text \<open>Subscripting \<^verbatim>\<open>xs[i]\<close>: an index from \<open>-len\<close> up to \<open>-1\<close> counts from the end, and
  anything outside \<open>-len \<dots> len - 1\<close> raises IndexError.\<close>

definition py_index :: "'a list \<Rightarrow> int \<Rightarrow> error + 'a" where
  "py_index xs i =
     (if 0 \<le> i \<and> i < int (length xs) then Inr (xs ! nat i)
      else if i < 0 \<and> - int (length xs) \<le> i then Inr (xs ! nat (int (length xs) + i))
      else Inl IndexError)"

text \<open>\<^verbatim>\<open>xs[:k]\<close>: a negative bound counts from the end, and nothing is out of range.\<close>

definition py_slice_to :: "'a list \<Rightarrow> int \<Rightarrow> 'a list" where
  "py_slice_to xs k =
     (if k < 0 then take (nat (int (length xs) + k)) xs else take (nat k) xs)"

text \<open>\<^verbatim>\<open>min(xs)\<close> and \<^verbatim>\<open>max(xs)\<close>: ValueError on the empty sequence.\<close>

definition py_min :: "'a::linorder list \<Rightarrow> error + 'a" where
  "py_min xs = (case xs of [] \<Rightarrow> Inl ValueError | x # r \<Rightarrow> Inr (fold min r x))"

definition py_max :: "'a::linorder list \<Rightarrow> error + 'a" where
  "py_max xs = (case xs of [] \<Rightarrow> Inl ValueError | x # r \<Rightarrow> Inr (fold max r x))"

text \<open>Python 2's \<^verbatim>\<open>round(x)\<close> rounds half away from zero.\<close>

definition py_round :: "real \<Rightarrow> int" where
  "py_round x = (if 0 \<le> x then \<lfloor>x + 1 / 2\<rfloor> else - \<lfloor>- x + 1 / 2\<rfloor>)"

text \<open>\<^verbatim>\<open>round(x, n)\<close>: rounding to \<open>n\<close> decimal places.\<close>

definition py_round_digits :: "real \<Rightarrow> nat \<Rightarrow> real" where
  "py_round_digits x n = real_of_int (py_round (x * 10 ^ n)) / 10 ^ n"

subsection \<open>FitnessList\<close>

record FitnessList =
  records :: "(real \<times> nat) list"
  fitness_type :: string
  target_value :: "real option"

definition set_fitness_type :: "string \<Rightarrow> error + string" where
  "set_fitness_type ft = (if ft \<notin> set FITNESS_TYPES then Inl ValueError else Inr ft)"

definition set_target_value :: "pyval \<Rightarrow> error + real" where
  "set_target_value tv = (case tv of PyFloat t \<Rightarrow> Inr t | _ \<Rightarrow> Inl ValueError)"

text \<open>\<^verbatim>\<open>FitnessList.__init__\<close>: an empty list with a checked type and an optional target.\<close>

definition FitnessList_init :: "string \<Rightarrow> pyval \<Rightarrow> error + FitnessList" where
  "FitnessList_init ft tv =
     (case set_fitness_type ft of
        Inl e \<Rightarrow> Inl e
      | Inr ft' \<Rightarrow>
          (if tv \<noteq> PyNone then
             (case set_target_value tv of
                Inl e \<Rightarrow> Inl e
              | Inr t \<Rightarrow> Inr \<lparr>records = [], fitness_type = ft', target_value = Some t\<rparr>)
           else Inr \<lparr>records = [], fitness_type = ft', target_value = None\<rparr>))"

text \<open>\<^verbatim>\<open>list.append\<close>, inherited.\<close>

definition append_record :: "FitnessList \<Rightarrow> real \<times> nat \<Rightarrow> FitnessList" where
  "append_record fl r = fl\<lparr>records := records fl @ [r]\<rparr>"

text \<open>\<^verbatim>\<open>min_value\<close> and \<^verbatim>\<open>max_value\<close> take the minimum and maximum of the list's own
  elements, which are the records.\<close>

definition min_value :: "FitnessList \<Rightarrow> error + (real \<times> nat)" where
  "min_value fl = py_min (records fl)"

definition max_value :: "FitnessList \<Rightarrow> error + (real \<times> nat)" where
  "max_value fl = py_max (records fl)"

text \<open>\<^verbatim>\<open>sorted\<close>. Equal records are identical values, so the stable descending sort of
  \<^verbatim>\<open>sort(reverse=True)\<close> is the reversed ascending sort. An object whose type is none
  of the three leaves \<^verbatim>\<open>new_list\<close> unbound.\<close>

definition sorted_fl :: "FitnessList \<Rightarrow> error + (real \<times> nat) list" where
  "sorted_fl fl =
     (if fitness_type fl = MIN_t then Inr (sort (records fl))
      else if fitness_type fl = MAX_t then Inr (rev (sort (records fl)))
      else if fitness_type fl = CENTER_t then
        Inr (sort (map (\<lambda>i. (\<bar>fst i\<bar>, snd i)) (records fl)))
      else Inl UnboundLocalError)"

definition best_value :: "FitnessList \<Rightarrow> error + fitval" where
  "best_value fl =
     (if fitness_type fl = MIN_t then map_sum id Record (min_value fl)
      else if fitness_type fl = MAX_t then map_sum id Record (max_value fl)
      else if fitness_type fl = CENTER_t then
        (case sorted_fl fl of
           Inl e \<Rightarrow> Inl e
         | Inr sortlist \<Rightarrow> map_sum id (Score \<circ> fst) (py_index sortlist 0))
      else Inr NoValue)"

definition worst_value :: "FitnessList \<Rightarrow> error + fitval" where
  "worst_value fl =
     (if fitness_type fl = MIN_t then map_sum id Record (max_value fl)
      else if fitness_type fl = MAX_t then map_sum id Record (min_value fl)
      else if fitness_type fl = CENTER_t then
        (case sorted_fl fl of
           Inl e \<Rightarrow> Inl e
         | Inr sortlist \<Rightarrow> map_sum id (Score \<circ> fst) (py_index sortlist (- 1)))
      else Inr NoValue)"

text \<open>\<^verbatim>\<open>median\<close>. \<^verbatim>\<open>length / 2\<close> is Python 2's floor division on ints, and
  \<^verbatim>\<open>half - length % 2 == 0\<close> parses as \<^verbatim>\<open>(half - (length % 2)) == 0\<close>.\<close>

definition median :: "FitnessList \<Rightarrow> error + real" where
  "median fl =
     (case sorted_fl fl of
        Inl e \<Rightarrow> Inl e
      | Inr sort_list \<Rightarrow>
          (let len = int (length (records fl));
               half = len div 2
           in if half - len mod 2 = 0 then
                (case py_index sort_list (half - 1) of
                   Inl e \<Rightarrow> Inl e
                 | Inr a \<Rightarrow>
                     (case py_index sort_list half of
                        Inl e \<Rightarrow> Inl e
                      | Inr b \<Rightarrow> Inr ((fst a + fst b) / 2)))
              else map_sum id fst (py_index sort_list half)))"

text \<open>The CENTER order as the specification words it, for comparison with \<^verbatim>\<open>sorted\<close>:
  the key of a record is the absolute distance of its score from the target \<open>t\<close>.\<close>

definition target_distance_sorted :: "real \<Rightarrow> (real \<times> nat) list \<Rightarrow> (real \<times> nat) list" where
  "target_distance_sorted t rs = sort (map (\<lambda>i. (\<bar>fst i - t\<bar>, snd i)) rs)"

subsection \<open>Selection: the roulette wheel and the position list\<close>

text \<open>The running totals \<^verbatim>\<open>cumu[1:]\<close>; \<^verbatim>\<open>cumu[0]\<close> is \<open>0.0\<close>.\<close>

fun cumulate :: "real \<Rightarrow> real list \<Rightarrow> real list" where
  "cumulate c [] = []"
| "cumulate c (x # xs) = (x + c) # cumulate (x + c) xs"

text \<open>The inner \<^verbatim>\<open>while\<close> of one draw, over \<^verbatim>\<open>cumu[position + 1]\<close> from \<open>position\<close> on:
  the first position whose upper bound exceeds the random value is yielded; when none
  does, the draw yields nothing.\<close>

fun wheel_scan :: "real list \<Rightarrow> real \<Rightarrow> nat \<Rightarrow> nat option" where
  "wheel_scan [] rand_val position = None"
| "wheel_scan (c # cs) rand_val position =
     (if c > rand_val then Some position else wheel_scan cs rand_val (Suc position))"

text \<open>\<^verbatim>\<open>_roulette_wheel\<close>, run to exhaustion. \<open>rnd i\<close> is the value of the \<open>i\<close>-th call of
  \<^verbatim>\<open>random.random()\<close>; the result lists the yielded positions in order.\<close>

definition roulette_wheel :: "real list \<Rightarrow> (nat \<Rightarrow> real) \<Rightarrow> error + nat list" where
  "roulette_wheel scale_list rnd =
     (if py_round_digits (sum_list scale_list) 10 \<noteq> 1 then Inl ValueError
      else Inr (List.map_filter (\<lambda>i. wheel_scan (cumulate 0 scale_list) (rnd i) 0)
                  [0..<length scale_list]))"

subsection \<open>Fitness: the working vector and its scaling\<close>

record Fitness =
  selection_type :: string
  selection_list :: "real list"
  fitness_list :: FitnessList

definition set_selection_type :: "'a Fitness_scheme \<Rightarrow> string \<Rightarrow> error + 'a Fitness_scheme" where
  "set_selection_type s st =
     (if st \<notin> {MIN_t, MAX_t} then Inl ValueError else Inr (s\<lparr>selection_type := st\<rparr>))"

text \<open>\<^verbatim>\<open>_make_sort_list\<close>: each entry of the working vector paired with its position,
  in position order.\<close>

definition make_sort_list :: "'a Fitness_scheme \<Rightarrow> (real \<times> nat) list" where
  "make_sort_list s =
     map (\<lambda>i. (selection_list s ! i, i)) [0..<length (selection_list s)]"

text \<open>The loop of \<^verbatim>\<open>set_fitness_list\<close> for a CENTER list: subtracting an unset target
  (\<^verbatim>\<open>None\<close>) from a float is a TypeError.\<close>

fun center_distances :: "real option \<Rightarrow> (real \<times> nat) list \<Rightarrow> error + real list" where
  "center_distances tv [] = Inr []"
| "center_distances tv (r # rs) =
     (case (if fst r \<noteq> 0 then
              (case tv of None \<Rightarrow> Inl TypeError | Some t \<Rightarrow> Inr \<bar>fst r - t\<bar>)
            else Inr 0) of
        Inl e \<Rightarrow> Inl e
      | Inr d \<Rightarrow>
          (case center_distances tv rs of
             Inl e \<Rightarrow> Inl e
           | Inr ds \<Rightarrow> Inr (d # ds)))"

definition set_fitness_list :: "FitnessList \<Rightarrow> error + real list" where
  "set_fitness_list fl =
     (if fitness_type fl = CENTER_t then center_distances (target_value fl) (records fl)
      else Inr (map fst (records fl)))"

text \<open>\<^verbatim>\<open>Fitness.__init__\<close>: the selection type starts as \<^verbatim>\<open>MAX\<close>.\<close>

definition Fitness_init :: "FitnessList \<Rightarrow> error + Fitness" where
  "Fitness_init fl =
     (case set_fitness_list fl of
        Inl e \<Rightarrow> Inl e
      | Inr sl \<Rightarrow> Inr \<lparr>selection_type = MAX_t, selection_list = sl, fitness_list = fl\<rparr>)"

definition invert :: "real \<Rightarrow> real" where
  "invert v = (if v = 0 then 0 else 1 / v)"

definition scale_inverse :: "'a Fitness_scheme \<Rightarrow> bool" where
  "scale_inverse s =
     (if selection_type s = MAX_t \<and> fitness_type (fitness_list s) = MIN_t then True
      else if selection_type s = MIN_t \<and> fitness_type (fitness_list s) = MAX_t then True
      else if selection_type s = MAX_t \<and> fitness_type (fitness_list s) = CENTER_t then True
      else False)"

definition scale_list :: "'a Fitness_scheme \<Rightarrow> 'a Fitness_scheme" where
  "scale_list s =
     (if scale_inverse s then s\<lparr>selection_list := map invert (selection_list s)\<rparr> else s)"

subsection \<open>Argument checks shared by the strategies\<close>

text \<open>Python 2's chained comparison \<^verbatim>\<open>0.0 < v <= 1.0\<close> on a value of any type: \<^verbatim>\<open>None\<close>
  is below every number and every string is above, so only a number can pass.\<close>

definition in_unit_range :: "pyval \<Rightarrow> bool" where
  "in_unit_range v =
     (case v of
        PyFloat x \<Rightarrow> 0 < x \<and> x \<le> 1
      | PyInt i \<Rightarrow> 0 < i \<and> i \<le> 1
      | PyNone \<Rightarrow> False
      | PyStr s \<Rightarrow> False)"

definition is_float :: "pyval \<Rightarrow> bool" where
  "is_float v = (case v of PyFloat x \<Rightarrow> True | _ \<Rightarrow> False)"

definition is_int :: "pyval \<Rightarrow> bool" where
  "is_int v = (case v of PyInt i \<Rightarrow> True | _ \<Rightarrow> False)"

text \<open>\<^verbatim>\<open>round(v * n)\<close> for a rate \<open>v\<close> and a length \<open>n\<close>: only a number can be rounded.\<close>

definition rate_times :: "pyval \<Rightarrow> nat \<Rightarrow> error + real" where
  "rate_times v n =
     (case v of
        PyFloat x \<Rightarrow> Inr (x * real n)
      | PyInt i \<Rightarrow> Inr (real_of_int i * real n)
      | _ \<Rightarrow> Inl TypeError)"

text \<open>A comprehension or loop whose body can raise: the first error ends it.\<close>

fun map_err :: "('a \<Rightarrow> error + 'b) \<Rightarrow> 'a list \<Rightarrow> error + 'b list" where
  "map_err f [] = Inr []"
| "map_err f (x # xs) =
     (case f x of
        Inl e \<Rightarrow> Inl e
      | Inr y \<Rightarrow> (case map_err f xs of Inl e \<Rightarrow> Inl e | Inr ys \<Rightarrow> Inr (y # ys)))"

subsection \<open>Rounded arithmetic and normalising\<close>

text \<open>
  Every float operation of the code returns the rounded exact result. In the functions of
  this subsection the rounding is a parameter \<open>rd\<close>, applied to the exact result of each
  single operation: the identity gives exact arithmetic, and \<open>binary64\<close> below gives the
  arithmetic of Python's floats (IEEE 754 doubles, round to nearest, ties to even), with
  gradual underflow. Results of magnitude \<open>2^1024\<close> and more are not cut off: infinities
  and NaN are outside the model.
\<close>











subsection \<open>Tournament parameters\<close>

record Tournament =
  tournament_size :: pyval
  minmax :: string

definition set_tournament_size :: "real list \<Rightarrow> pyval \<Rightarrow> error + pyval" where
  "set_tournament_size sl ts =
     (if ts \<noteq> PyNone then
        (case ts of
           PyInt k \<Rightarrow>
             (if sl \<noteq> [] \<and> k > int (length sl) then Inl ValueError else Inr ts)
         | _ \<Rightarrow> Inl ValueError)
      else Inr ts)"

definition set_minmax :: "string \<Rightarrow> error + string" where
  "set_minmax m = (if m \<notin> set [MIN_t, MAX_t] then Inl ValueError else Inr m)"

subsection \<open>The strategies' constructors\<close>

record FitnessProportionate = Fitness +
  scaling_type :: string

definition scaling_types :: "string list" where
  "scaling_types = [''linear'', ''truncation'', ''exponential'', ''logarithmic'']"

definition set_scaling_type :: "pyval \<Rightarrow> error + string" where
  "set_scaling_type st =
     (case st of
        PyStr n \<Rightarrow> (if n \<notin> set scaling_types then Inl ValueError else Inr n)
      | _ \<Rightarrow> Inl ValueError)"

definition check_minmax :: "real list \<Rightarrow> string \<Rightarrow> error + unit" where
  "check_minmax sl st =
     (case py_min sl of
        Inl e \<Rightarrow> Inl e
      | Inr mn \<Rightarrow>
          (case py_max sl of
             Inl e \<Rightarrow> Inl e
           | Inr mx \<Rightarrow>
               (if mn < 0 \<and> 0 < mx then Inl ValueError
                else if mn < 0 \<and> st = ''logarithmic'' then Inl ValueError
                else Inr ())))"

definition FitnessProportionate_init :: "FitnessList \<Rightarrow> pyval \<Rightarrow> error + FitnessProportionate" where
  "FitnessProportionate_init fl st =
     (case Fitness_init fl of
        Inl e \<Rightarrow> Inl e
      | Inr f \<Rightarrow>
          (case set_scaling_type st of
             Inl e \<Rightarrow> Inl e
           | Inr n \<Rightarrow>
               (case check_minmax (selection_list f) n of
                  Inl e \<Rightarrow> Inl e
                | Inr u \<Rightarrow>
                    Inr \<lparr>selection_type = selection_type f, selection_list = selection_list f,
                         fitness_list = fitness_list f, scaling_type = n\<rparr>)))"

text \<open>\<^verbatim>\<open>FitnessTournament.__init__\<close>: \<^verbatim>\<open>Tournament.__init__(self)\<close> has no list and no
  size to check and cannot raise; \<^verbatim>\<open>Fitness.__init__\<close> follows.\<close>

definition FitnessTournament_init :: "FitnessList \<Rightarrow> pyval \<Rightarrow> error + Fitness \<times> Tournament" where
  "FitnessTournament_init fl ts =
     (case Fitness_init fl of
        Inl e \<Rightarrow> Inl e
      | Inr f \<Rightarrow>
          (case set_minmax (if fitness_type (fitness_list f) = MAX_t then MAX_t else MIN_t) of
             Inl e \<Rightarrow> Inl e
           | Inr m \<Rightarrow>
               (case set_tournament_size (selection_list f) ts of
                  Inl e \<Rightarrow> Inl e
                | Inr k \<Rightarrow> Inr (f, \<lparr>tournament_size = k, minmax = m\<rparr>))))"

record FitnessElites = Fitness +
  rate :: pyval

definition set_rate :: "pyval \<Rightarrow> error + pyval" where
  "set_rate r = (if \<not> is_float r \<and> in_unit_range r then Inl ValueError else Inr r)"

definition FitnessElites_init :: "FitnessList \<Rightarrow> pyval \<Rightarrow> error + FitnessElites" where
  "FitnessElites_init fl r =
     (case Fitness_init fl of
        Inl e \<Rightarrow> Inl e
      | Inr f \<Rightarrow>
          (case set_rate r of
             Inl e \<Rightarrow> Inl e
           | Inr r' \<Rightarrow>
               set_selection_type
                 \<lparr>selection_type = selection_type f, selection_list = selection_list f,
                  fitness_list = fitness_list f, rate = r'\<rparr> MIN_t))"

record FitnessLinearRanking = Fitness +
  worstfactor :: real
  bestfactor :: real

definition set_worstfactor :: "pyval \<Rightarrow> error + real" where
  "set_worstfactor v = (case v of PyFloat x \<Rightarrow> Inr x | _ \<Rightarrow> Inl ValueError)"

definition set_bestfactor :: "pyval \<Rightarrow> error + real" where
  "set_bestfactor v = (case v of PyFloat x \<Rightarrow> Inr x | _ \<Rightarrow> Inl ValueError)"

definition FitnessLinearRanking_init ::
  "FitnessList \<Rightarrow> pyval \<Rightarrow> pyval \<Rightarrow> error + FitnessLinearRanking" where
  "FitnessLinearRanking_init fl wfactor bfactor =
     (case Fitness_init fl of
        Inl e \<Rightarrow> Inl e
      | Inr f \<Rightarrow>
          (case set_worstfactor wfactor of
             Inl e \<Rightarrow> Inl e
           | Inr w \<Rightarrow>
               (case set_bestfactor bfactor of
                  Inl e \<Rightarrow> Inl e
                | Inr b \<Rightarrow>
                    Inr \<lparr>selection_type = selection_type f, selection_list = selection_list f,
                         fitness_list = fitness_list f, worstfactor = w, bestfactor = b\<rparr>)))"

record FitnessTruncationRanking = Fitness +
  trunc_rate :: pyval

definition set_trunc_rate :: "pyval \<Rightarrow> error + pyval" where
  "set_trunc_rate r = (if \<not> is_float r \<and> in_unit_range r then Inl ValueError else Inr r)"

definition FitnessTruncationRanking_init ::
  "FitnessList \<Rightarrow> pyval \<Rightarrow> error + FitnessTruncationRanking" where
  "FitnessTruncationRanking_init fl r =
     (case Fitness_init fl of
        Inl e \<Rightarrow> Inl e
      | Inr f \<Rightarrow>
          (case set_trunc_rate r of
             Inl e \<Rightarrow> Inl e
           | Inr r' \<Rightarrow>
               set_selection_type
                 \<lparr>selection_type = selection_type f, selection_list = selection_list f,
                  fitness_list = fitness_list f, trunc_rate = r'\<rparr> MIN_t))"

record Replacement = Fitness +
  replacement_count :: int

definition Replacement_init :: "FitnessList \<Rightarrow> error + Replacement" where
  "Replacement_init fl =
     (case Fitness_init fl of
        Inl e \<Rightarrow> Inl e
      | Inr f \<Rightarrow>
          Inr \<lparr>selection_type = selection_type f, selection_list = selection_list f,
               fitness_list = fitness_list f, replacement_count = 0\<rparr>)"

text \<open>\<^verbatim>\<open>set_replacement_count\<close>: the guard is
  \<^verbatim>\<open>not isinstance(replacement_count, int) or 0.0 < replacement_count <= 1.0\<close>.\<close>

definition set_replacement_count :: "Replacement \<Rightarrow> pyval \<Rightarrow> error + Replacement" where
  "set_replacement_count s rc =
     (if \<not> is_int rc \<or> in_unit_range rc then Inl ValueError
      else (case rc of PyInt k \<Rightarrow> Inr (s\<lparr>replacement_count := k\<rparr>) | _ \<Rightarrow> Inl ValueError))"

definition ReplacementDeleteWorst_init :: "FitnessList \<Rightarrow> pyval \<Rightarrow> error + Replacement" where
  "ReplacementDeleteWorst_init fl rc =
     (case Replacement_init fl of
        Inl e \<Rightarrow> Inl e
      | Inr s \<Rightarrow>
          (case set_replacement_count s rc of
             Inl e \<Rightarrow> Inl e
           | Inr s' \<Rightarrow> set_selection_type s' MIN_t))"

definition ReplacementTournament_init ::
  "FitnessList \<Rightarrow> pyval \<Rightarrow> error + Replacement \<times> Tournament" where
  "ReplacementTournament_init fl ts =
     (case Replacement_init fl of
        Inl e \<Rightarrow> Inl e
      | Inr s \<Rightarrow>
          (case set_tournament_size (selection_list s) ts of
             Inl e \<Rightarrow> Inl e
           | Inr k \<Rightarrow>
               (case set_minmax (if fitness_type (fitness_list s) = MAX_t then MIN_t else MAX_t) of
                  Inl e \<Rightarrow> Inl e
                | Inr m \<Rightarrow> Inr (s, \<lparr>tournament_size = k, minmax = m\<rparr>))))"

subsection \<open>The strategies' select functions\<close>

text \<open>\<^verbatim>\<open>FitnessElites.select\<close>, run to exhaustion: the yielded member numbers.\<close>

definition FitnessElites_select :: "FitnessElites \<Rightarrow> error + nat list" where
  "FitnessElites_select s =
     (let s1 = scale_list s;
          sort_list = sort (make_sort_list s1)
      in case rate_times (rate s1) (length sort_list) of
           Inl e \<Rightarrow> Inl e
         | Inr x \<Rightarrow> Inr (map snd (py_slice_to sort_list (py_round x))))"

text \<open>\<^verbatim>\<open>_linear_ranking\<close>: the counter \<open>i\<close> runs through \<open>1.0, 2.0, \<dots>, length\<close>; a
  division by \<^verbatim>\<open>length - 1.0 = 0.0\<close> raises.\<close>

definition linear_ranking ::
  "FitnessLinearRanking \<Rightarrow> (real \<times> nat) list \<Rightarrow> error + real list" where
  "linear_ranking s sort_list =
     (let len = real (length sort_list)
      in map_err
           (\<lambda>i. if len = 0 \<or> len - 1 = 0 then Inl ZeroDivisionError
                else Inr (1 / len *
                       (worstfactor s + (bestfactor s - worstfactor s) * (real i - 1) / (len - 1))))
           [1..<Suc (length sort_list)])"

text \<open>The list \<^verbatim>\<open>select_list\<close> of \<^verbatim>\<open>FitnessLinearRanking.select\<close>, in member order, whose
  second components go to the roulette wheel.\<close>

definition linear_ranking_select_list ::
  "FitnessLinearRanking \<Rightarrow> error + (nat \<times> real) list" where
  "linear_ranking_select_list s =
     (let s1 = scale_list s;
          sort_list = make_sort_list s1
      in case linear_ranking s1 sort_list of
           Inl e \<Rightarrow> Inl e
         | Inr prob_list \<Rightarrow>
             Inr (sort (map (\<lambda>i. (snd (sort_list ! i), prob_list ! i))
                          [0..<length sort_list])))"

definition FitnessLinearRanking_select ::
  "FitnessLinearRanking \<Rightarrow> (nat \<Rightarrow> real) \<Rightarrow> error + nat list" where
  "FitnessLinearRanking_select s rnd =
     (case linear_ranking_select_list s of
        Inl e \<Rightarrow> Inl e
      | Inr select_list \<Rightarrow> roulette_wheel (map snd select_list) rnd)"



text \<open>\<^verbatim>\<open>ReplacementDeleteWorst.select\<close>, run to exhaustion.\<close>

definition ReplacementDeleteWorst_select :: "Replacement \<Rightarrow> nat list" where
  "ReplacementDeleteWorst_select s =
     (let s1 = scale_list s;
          sort_list = rev (sort (make_sort_list s1))
      in map snd (py_slice_to sort_list (replacement_count s1)))"

text \<open>A source of random values that always returns the same value: enough to run the
  roulette wheel on a concrete input.\<close>

definition fixed_draws :: "real \<Rightarrow> nat \<Rightarrow> real" where
  "fixed_draws r i = r"

text \<open>A linear-ranking strategy over the scores 2, 3, 1 of members 0, 1, 2, to be
  maximised, with factors 0.5 and 1.5.\<close>

definition ranking_example :: FitnessLinearRanking where
  "ranking_example =
     \<lparr>selection_type = MAX_t, selection_list = [2, 3, 1],
      fitness_list = \<lparr>records = [(2, 0), (3, 1), (1, 2)], fitness_type = MAX_t,
        target_value = None\<rparr>,
      worstfactor = 1 / 2, bestfactor = 3 / 2\<rparr>"

section \<open>Properties\<close>

subsection \<open>Auxiliary facts\<close>

lemma type_names_distinct:
  "MAX_t \<noteq> MIN_t" "MIN_t \<noteq> MAX_t" "MAX_t \<noteq> CENTER_t"
  "CENTER_t \<noteq> MAX_t" "MIN_t \<noteq> CENTER_t" "CENTER_t \<noteq> MIN_t"
  by (simp_all add: MAX_t_def MIN_t_def CENTER_t_def)

lemma py_round_eq:
  "py_round y = k \<longleftrightarrow>
     (if 0 \<le> y then real_of_int k - 1 / 2 \<le> y \<and> y < real_of_int k + 1 / 2
      else real_of_int k - 1 / 2 < y \<and> y \<le> real_of_int k + 1 / 2)"
  unfolding py_round_def by (auto simp: floor_eq_iff; linarith)

lemma of_int_ten_digits: "real_of_int k = 10000000000 \<longleftrightarrow> k = 10000000000"
  by linarith

lemma py_round_digits_ten_one:
  "py_round_digits x 10 = 1 \<longleftrightarrow> 1 - 5 / 10 ^ 11 \<le> x \<and> x < 1 + 5 / 10 ^ 11"
proof -
  have "py_round_digits x 10 = 1 \<longleftrightarrow> real_of_int (py_round (x * 10000000000)) = 10000000000"
    unfolding py_round_digits_def by simp
  also have "\<dots> \<longleftrightarrow> py_round (x * 10000000000) = 10000000000"
    by (rule of_int_ten_digits)
  also have "\<dots> \<longleftrightarrow> 1 - 5 / 10 ^ 11 \<le> x \<and> x < 1 + 5 / 10 ^ 11"
    unfolding py_round_eq by (simp; linarith)
  finally show ?thesis .
qed


lemma center_distances_unset_target:
  "\<exists>r\<in>set rs. fst r \<noteq> 0 \<Longrightarrow> center_distances None rs = Inl TypeError"
  by (induction rs) (auto split: sum.splits)



lemma Fitness_init_unset_target:
  assumes "fitness_type fl = CENTER_t" "target_value fl = None" "\<exists>r\<in>set (records fl). fst r \<noteq> 0"
  shows "Fitness_init fl = Inl TypeError"
  using assms by (simp add: Fitness_init_def set_fitness_list_def center_distances_unset_target)




lemma sorted_fl_center_any_target:
  assumes "fitness_type fl = CENTER_t"
  shows "sorted_fl (fl\<lparr>target_value := t'\<rparr>) =
           Inr (sort (map (\<lambda>i. (\<bar>fst i\<bar>, snd i)) (records fl)))"
  using assms by (simp add: sorted_fl_def type_names_distinct)

subsection \<open>The roulette wheel's tolerance\<close>

text \<open>
  Claim C5, as the code has it. The guard of the roulette wheel is
  \<^verbatim>\<open>round(sum(scale_list), 10) != 1.0\<close>: the sum is rounded to ten decimal places, half
  away from zero, and compared with 1. So the wheel raises ValueError exactly when the sum
  is below \<open>1 - 5e-11\<close> or at least \<open>1 + 5e-11\<close>, and yields picks exactly when the sum
  lies in the half-open interval between the two. The tolerance is half a unit of the
  tenth decimal place, not \<open>1e-10\<close>.
\<close>

theorem roulette_wheel_tolerance:
  "(roulette_wheel w rnd = Inl ValueError \<longleftrightarrow>
      sum_list w < 1 - 5 / 10 ^ 11 \<or> 1 + 5 / 10 ^ 11 \<le> sum_list w) \<and>
   ((\<exists>picks. roulette_wheel w rnd = Inr picks) \<longleftrightarrow>
      1 - 5 / 10 ^ 11 \<le> sum_list w \<and> sum_list w < 1 + 5 / 10 ^ 11)"
  unfolding roulette_wheel_def py_round_digits_ten_one by auto

text \<open>The weights \<open>[0.9999999999]\<close> are rejected, the weights \<open>[0.5, 0.5]\<close> are accepted.\<close>

theorem roulette_wheel_tolerance_witness:
  "roulette_wheel [9999999999 / 10 ^ 10] (fixed_draws 0) = Inl ValueError \<and>
   (\<exists>picks. roulette_wheel [1 / 2, 1 / 2] (fixed_draws 0) = Inr picks)"
  using roulette_wheel_tolerance [of "[9999999999 / 10 ^ 10]" "fixed_draws 0"]
    roulette_wheel_tolerance [of "[1 / 2, 1 / 2]" "fixed_draws 0"]
  by simp

text \<open>The weights \<open>[0.5, 0.50000000008]\<close> sum to \<open>1.00000000008\<close>, which is within \<open>1e-10\<close>
  of 1, and the wheel rejects them: the sum rounds to \<open>1.0000000001\<close>.\<close>

theorem roulette_wheel_within_tolerance_rejected:
  "roulette_wheel [1 / 2, 50000000008 / 10 ^ 11] (fixed_draws 0) = Inl ValueError \<and>
   \<bar>sum_list [1 / 2, 50000000008 / 10 ^ 11] - 1\<bar> \<le> (1 / 10 ^ 10 :: real)"
  by (simp add: roulette_wheel_def py_round_digits_def py_round_def)

subsection \<open>Scaling and normalising the working vector\<close>

text \<open>
  Claim C7. \<^verbatim>\<open>_scale_list\<close> replaces every entry of the working vector by its reciprocal,
  with 0 mapped to 0, exactly when the pair (selection type, fitness type) is (MAX, MIN),
  (MIN, MAX) or (MAX, CENTER); for every other pair the vector stays as it is. The
  selection type and the fitness list are never touched.
\<close>

theorem scale_list_reciprocal_cases:
  "selection_list (scale_list s) =
     (if (selection_type s, fitness_type (fitness_list s))
           \<in> {(MAX_t, MIN_t), (MIN_t, MAX_t), (MAX_t, CENTER_t)}
      then map (\<lambda>v. if v = 0 then 0 else 1 / v) (selection_list s)
      else selection_list s) \<and>
   selection_type (scale_list s) = selection_type s \<and>
   fitness_list (scale_list s) = fitness_list s"
proof -
  have "selection_list (scale_list s) =
     (if (selection_type s, fitness_type (fitness_list s))
           \<in> {(MAX_t, MIN_t), (MIN_t, MAX_t), (MAX_t, CENTER_t)}
      then map (\<lambda>v. if v = 0 then 0 else 1 / v) (selection_list s)
      else selection_list s)"
    unfolding scale_list_def scale_inverse_def
    by (cases "selection_type s = MAX_t"; cases "selection_type s = MIN_t";
        cases "fitness_type (fitness_list s) = MIN_t";
        cases "fitness_type (fitness_list s) = MAX_t";
        cases "fitness_type (fitness_list s) = CENTER_t")
      (simp_all add: invert_def[abs_def])
  moreover have "selection_type (scale_list s) = selection_type s"
    by (simp add: scale_list_def)
  moreover have "fitness_list (scale_list s) = fitness_list s"
    by (simp add: scale_list_def)
  ultimately show ?thesis by blast
qed

text \<open>Reciprocals for (MAX, MIN); nothing changes for (MIN, CENTER).\<close>

theorem scale_list_reciprocal_cases_witness:
  "selection_list (scale_list \<lparr>selection_type = MAX_t, selection_list = [2, 0, 4],
      fitness_list = \<lparr>records = [(2, 0), (0, 1), (4, 2)], fitness_type = MIN_t,
        target_value = None\<rparr>\<rparr>) = [1 / 2, 0, 1 / 4] \<and>
   selection_list (scale_list \<lparr>selection_type = MIN_t, selection_list = [2, 0, 4],
      fitness_list = \<lparr>records = [(2, 0), (0, 1), (4, 2)], fitness_type = CENTER_t,
        target_value = Some 0\<rparr>\<rparr>) = [2, 0, 4]"
  using scale_list_reciprocal_cases [of "\<lparr>selection_type = MAX_t, selection_list = [2, 0, 4],
      fitness_list = \<lparr>records = [(2, 0), (0, 1), (4, 2)], fitness_type = MIN_t,
        target_value = None\<rparr>\<rparr>"]
    scale_list_reciprocal_cases [of "\<lparr>selection_type = MIN_t, selection_list = [2, 0, 4],
      fitness_list = \<lparr>records = [(2, 0), (0, 1), (4, 2)], fitness_type = CENTER_t,
        target_value = Some 0\<rparr>\<rparr>"]
  by (simp add: type_names_distinct)




subsection \<open>Statistics of a fitness list\<close>

text \<open>
  Claim C3, on the code. The test \<^verbatim>\<open>half - length % 2 == 0\<close> of \<^verbatim>\<open>median\<close> holds for the
  lengths 0 and 3 only, so a list of even length never takes the averaging branch. For
  the two records with scores 1 and 3 the two central keys are 1 and 3, whose average is
  2, and \<^verbatim>\<open>median\<close> returns 3, the upper one. For the three records with scores 1, 2, 6
  the middle key is 2, and \<^verbatim>\<open>median\<close> returns 1.5, the average of the first two keys.
\<close>

theorem median_even_and_three:
  "median \<lparr>records = [(1, 0), (3, 1)], fitness_type = MIN_t, target_value = None\<rparr> = Inr 3 \<and>
   sorted_fl \<lparr>records = [(1, 0), (3, 1)], fitness_type = MIN_t, target_value = None\<rparr>
     = Inr [(1, 0), (3, 1)] \<and>
   median \<lparr>records = [(1, 0), (2, 1), (6, 2)], fitness_type = MIN_t, target_value = None\<rparr>
     = Inr (3 / 2) \<and>
   sorted_fl \<lparr>records = [(1, 0), (2, 1), (6, 2)], fitness_type = MIN_t, target_value = None\<rparr>
     = Inr [(1, 0), (2, 1), (6, 2)]"
  by (simp add: sorted_fl_def median_def py_index_def type_names_distinct)

text \<open>
  Claim C4, on the code. \<^verbatim>\<open>min_value\<close> and \<^verbatim>\<open>max_value\<close> take the minimum and maximum
  of the list's elements, which are whole records \<^verbatim>\<open>[score, member_no]\<close>: for the records
  (3, member 0) and (1, member 1) they return the records (1, member 1) and
  (3, member 0), not the scores 1 and 3. \<^verbatim>\<open>best_value\<close> hands the record on for a MIN
  list, while its CENTER branch returns a bare key.
\<close>

theorem min_max_value_record:
  "min_value \<lparr>records = [(3, 0), (1, 1)], fitness_type = MIN_t, target_value = None\<rparr>
     = Inr (1, 1) \<and>
   max_value \<lparr>records = [(3, 0), (1, 1)], fitness_type = MIN_t, target_value = None\<rparr>
     = Inr (3, 0) \<and>
   best_value \<lparr>records = [(3, 0), (1, 1)], fitness_type = MIN_t, target_value = None\<rparr>
     = Inr (Record (1, 1)) \<and>
   best_value \<lparr>records = [(3, 0), (1, 1)], fitness_type = CENTER_t, target_value = None\<rparr>
     = Inr (Score 1)"
  by (simp add: sorted_fl_def py_index_def min_value_def max_value_def py_min_def py_max_def
      best_value_def type_names_distinct)

subsection \<open>Delete-worst replacement\<close>

text \<open>
  Claim C8, on the code. The guard of \<^verbatim>\<open>set_replacement_count\<close> rejects an int that lies
  in \<open>(0.0, 1.0]\<close>, which is the count 1: over a list of two members, constructing the
  strategy with \<^verbatim>\<open>replacement_count = 1\<close> raises ValueError, while the count 2 is accepted.
\<close>

theorem delete_worst_count_one:
  "ReplacementDeleteWorst_init
     \<lparr>records = [(1, 0), (2, 1)], fitness_type = MIN_t, target_value = None\<rparr> (PyInt 1)
     = Inl ValueError \<and>
   ReplacementDeleteWorst_init
     \<lparr>records = [(1, 0), (2, 1)], fitness_type = MIN_t, target_value = None\<rparr> (PyInt 2)
     = Inr \<lparr>selection_type = MIN_t, selection_list = [1, 2],
            fitness_list = \<lparr>records = [(1, 0), (2, 1)], fitness_type = MIN_t, target_value = None\<rparr>,
            replacement_count = 2\<rparr>"
  by (simp add: ReplacementDeleteWorst_init_def Replacement_init_def Fitness_init_def
      set_fitness_list_def set_replacement_count_def is_int_def in_unit_range_def
      set_selection_type_def type_names_distinct)

subsection \<open>Linear ranking\<close>

text \<open>
  Claim C2, on the code. \<^verbatim>\<open>_make_sort_list\<close> pairs the working vector with the positions
  and does not sort, and \<^verbatim>\<open>FitnessLinearRanking.select\<close> does not sort either, so the rank
  probabilities follow member order. For the scores 2, 3, 1 (to be maximised) and the
  factors 0.5 and 1.5 the rank probabilities are 1/6, 1/3, 1/2. Member 0 holds rank 2 in
  the sorted order of the working vector, ascending or descending, and receives 1/6, the
  probability of rank 1. With every random value 0.25 the wheel then picks member 1
  three times.
\<close>

theorem linear_ranking_member_order:
  "FitnessLinearRanking_init
     \<lparr>records = [(2, 0), (3, 1), (1, 2)], fitness_type = MAX_t, target_value = None\<rparr>
     (PyFloat (1 / 2)) (PyFloat (3 / 2)) = Inr ranking_example \<and>
   linear_ranking_select_list ranking_example = Inr [(0, 1 / 6), (1, 1 / 3), (2, 1 / 2)] \<and>
   sort (make_sort_list (scale_list ranking_example)) = [(1, 2), (2, 0), (3, 1)] \<and>
   FitnessLinearRanking_select ranking_example (fixed_draws (1 / 4)) = Inr [1, 1, 1]"
proof (intro conjI)
  show "FitnessLinearRanking_init
     \<lparr>records = [(2, 0), (3, 1), (1, 2)], fitness_type = MAX_t, target_value = None\<rparr>
     (PyFloat (1 / 2)) (PyFloat (3 / 2)) = Inr ranking_example"
    by (simp add: FitnessLinearRanking_init_def Fitness_init_def set_fitness_list_def
        set_worstfactor_def set_bestfactor_def type_names_distinct ranking_example_def)
  show sl: "linear_ranking_select_list ranking_example
      = Inr [(0, 1 / 6), (1, 1 / 3), (2, 1 / 2)]"
    by (simp add: linear_ranking_select_list_def linear_ranking_def scale_list_def
        scale_inverse_def make_sort_list_def upt_rec type_names_distinct
        ranking_example_def Let_def)
  show "sort (make_sort_list (scale_list ranking_example)) = [(1, 2), (2, 0), (3, 1)]"
    by (simp add: scale_list_def scale_inverse_def make_sort_list_def upt_rec
        type_names_distinct ranking_example_def)
  show "FitnessLinearRanking_select ranking_example (fixed_draws (1 / 4)) = Inr [1, 1, 1]"
    by (simp add: FitnessLinearRanking_select_def sl roulette_wheel_def py_round_digits_def
        py_round_def List.map_filter_def fixed_draws_def upt_rec)
qed

subsection \<open>Truncation ranking\<close>




subsection \<open>A CENTER list without a target\<close>

text \<open>
  Claim C10. Constructing a CENTER list without a target succeeds, and appending records
  changes neither the type nor the target. Over a CENTER list whose target is unset and
  that holds at least one nonzero score, \<^verbatim>\<open>Fitness.__init__\<close> raises TypeError (the
  subtraction of \<^verbatim>\<open>None\<close> from the score), and so does the constructor of every strategy,
  whatever its other arguments are: each one runs \<^verbatim>\<open>Fitness.__init__\<close> before any check
  that could raise.
\<close>

theorem center_without_target_type_error:
  assumes "fitness_type fl = CENTER_t" "target_value fl = None" "\<exists>r\<in>set (records fl). fst r \<noteq> 0"
  shows "FitnessList_init CENTER_t PyNone
           = Inr \<lparr>records = [], fitness_type = CENTER_t, target_value = None\<rparr> \<and>
         fitness_type (append_record fl0 r) = fitness_type fl0 \<and>
         target_value (append_record fl0 r) = target_value fl0 \<and>
         Fitness_init fl = Inl TypeError \<and>
         FitnessProportionate_init fl scaling = Inl TypeError \<and>
         FitnessTournament_init fl tsize = Inl TypeError \<and>
         FitnessElites_init fl erate = Inl TypeError \<and>
         FitnessLinearRanking_init fl wfactor bfactor = Inl TypeError \<and>
         FitnessTruncationRanking_init fl trate = Inl TypeError \<and>
         ReplacementDeleteWorst_init fl rcount = Inl TypeError \<and>
         ReplacementTournament_init fl tsize = Inl TypeError"
proof -
  have f: "Fitness_init fl = Inl TypeError"
    using assms by (rule Fitness_init_unset_target)
  have "FitnessList_init CENTER_t PyNone
           = Inr \<lparr>records = [], fitness_type = CENTER_t, target_value = None\<rparr>"
    by (simp add: FitnessList_init_def set_fitness_type_def FITNESS_TYPES_def)
  moreover have "fitness_type (append_record fl0 r) = fitness_type fl0"
    "target_value (append_record fl0 r) = target_value fl0"
    by (simp_all add: append_record_def)
  moreover have "FitnessProportionate_init fl scaling = Inl TypeError"
    by (simp add: FitnessProportionate_init_def f)
  moreover have "FitnessTournament_init fl tsize = Inl TypeError"
    by (simp add: FitnessTournament_init_def f)
  moreover have "FitnessElites_init fl erate = Inl TypeError"
    by (simp add: FitnessElites_init_def f)
  moreover have "FitnessLinearRanking_init fl wfactor bfactor = Inl TypeError"
    by (simp add: FitnessLinearRanking_init_def f)
  moreover have "FitnessTruncationRanking_init fl trate = Inl TypeError"
    by (simp add: FitnessTruncationRanking_init_def f)
  moreover have "ReplacementDeleteWorst_init fl rcount = Inl TypeError"
    by (simp add: ReplacementDeleteWorst_init_def Replacement_init_def f)
  moreover have "ReplacementTournament_init fl tsize = Inl TypeError"
    by (simp add: ReplacementTournament_init_def Replacement_init_def f)
  ultimately show ?thesis using f by blast
qed

text \<open>A CENTER list with the scores 0 and 2 and no target.\<close>

theorem center_without_target_type_error_witness:
  "Fitness_init \<lparr>records = [(0, 0), (2, 1)], fitness_type = CENTER_t, target_value = None\<rparr>
     = Inl TypeError \<and>
   FitnessProportionate_init
     \<lparr>records = [(0, 0), (2, 1)], fitness_type = CENTER_t, target_value = None\<rparr>
     (PyStr ''linear'') = Inl TypeError \<and>
   FitnessTournament_init
     \<lparr>records = [(0, 0), (2, 1)], fitness_type = CENTER_t, target_value = None\<rparr>
     (PyInt 2) = Inl TypeError \<and>
   FitnessElites_init
     \<lparr>records = [(0, 0), (2, 1)], fitness_type = CENTER_t, target_value = None\<rparr>
     (PyFloat (1 / 2)) = Inl TypeError \<and>
   FitnessLinearRanking_init
     \<lparr>records = [(0, 0), (2, 1)], fitness_type = CENTER_t, target_value = None\<rparr>
     (PyFloat (1 / 2)) (PyFloat (3 / 2)) = Inl TypeError \<and>
   FitnessTruncationRanking_init
     \<lparr>records = [(0, 0), (2, 1)], fitness_type = CENTER_t, target_value = None\<rparr>
     (PyFloat (1 / 2)) = Inl TypeError \<and>
   ReplacementDeleteWorst_init
     \<lparr>records = [(0, 0), (2, 1)], fitness_type = CENTER_t, target_value = None\<rparr>
     (PyInt 2) = Inl TypeError \<and>
   ReplacementTournament_init
     \<lparr>records = [(0, 0), (2, 1)], fitness_type = CENTER_t, target_value = None\<rparr>
     (PyInt 2) = Inl TypeError"
proof -
  let ?fl = "\<lparr>records = [(0, 0), (2, 1)], fitness_type = CENTER_t, target_value = None\<rparr>"
  have a: "fitness_type ?fl = CENTER_t" by simp
  have b: "target_value ?fl = None" by simp
  have c: "\<exists>r\<in>set (records ?fl). fst r \<noteq> 0" by simp
  show ?thesis
    using center_without_target_type_error [OF a b c, of "\<lparr>records = [], fitness_type = CENTER_t, target_value = None\<rparr>" "(2, 1)"
        "PyStr ''linear''" "PyInt 2" "PyFloat (1 / 2)"
        "PyFloat (1 / 2)" "PyFloat (3 / 2)" "PyFloat (1 / 2)" "PyInt 2"]
    by simp
qed

subsection \<open>The order of a CENTER list\<close>

text \<open>
  Claim C1, on the code. \<^verbatim>\<open>sorted\<close> builds the keys of a CENTER list as \<^verbatim>\<open>abs(i[0])\<close> and
  never reads the target. With target 3 the scores 3 and 1 of members 0 and 1 lie at the
  distances 0 and 2 from the target, so the order by distance from the target puts
  member 0 first with key 0. \<^verbatim>\<open>sorted\<close> puts member 1 first with key 1, \<^verbatim>\<open>best_value\<close>
  is 1 and \<^verbatim>\<open>median\<close> is 3. \<^verbatim>\<open>Fitness.set_fitness_list\<close> keys the same list by the
  distance from the target: 0 for member 0 and 2 for member 1.
\<close>

theorem sorted_center_ignores_target:
  "sorted_fl \<lparr>records = [(3, 0), (1, 1)], fitness_type = CENTER_t, target_value = Some 3\<rparr>
     = Inr [(1, 1), (3, 0)] \<and>
   target_distance_sorted 3 [(3, 0), (1, 1)] = [(0, 0), (2, 1)] \<and>
   best_value \<lparr>records = [(3, 0), (1, 1)], fitness_type = CENTER_t, target_value = Some 3\<rparr>
     = Inr (Score 1) \<and>
   median \<lparr>records = [(3, 0), (1, 1)], fitness_type = CENTER_t, target_value = Some 3\<rparr>
     = Inr 3 \<and>
   set_fitness_list
       \<lparr>records = [(3, 0), (1, 1)], fitness_type = CENTER_t, target_value = Some 3\<rparr>
     = Inr [0, 2]"
  by (simp add: sorted_fl_def target_distance_sorted_def best_value_def median_def py_index_def
      set_fitness_list_def type_names_distinct)

end
